theory Spec2Isabelle
  imports Complex_Main
begin

section \<open>Invoice rendering: \<open>numberToWords\<close> (src/pages/OrderDetails.tsx)\<close>

text \<open>
  The word tables of \<open>numberToWords\<close>. A JavaScript array read outside its range gives
  \<open>undefined\<close>, which string concatenation renders as the text \<open>undefined\<close>.
\<close>

definition ones :: "string list" where
  "ones = ['''', ''One'', ''Two'', ''Three'', ''Four'', ''Five'', ''Six'', ''Seven'',
           ''Eight'', ''Nine'']"

definition tens :: "string list" where
  "tens = ['''', '''', ''Twenty'', ''Thirty'', ''Forty'', ''Fifty'', ''Sixty'', ''Seventy'',
           ''Eighty'', ''Ninety'']"

definition teens :: "string list" where
  "teens = [''Ten'', ''Eleven'', ''Twelve'', ''Thirteen'', ''Fourteen'', ''Fifteen'',
            ''Sixteen'', ''Seventeen'', ''Eighteen'', ''Nineteen'']"

definition js_index :: "string list \<Rightarrow> int \<Rightarrow> string" where
  "js_index xs i =
     (if 0 \<le> i \<and> i < int (length xs) then xs ! nat i else ''undefined'')"

text \<open>
  \<open>convertLessThanThousand\<close>, on the integer the caller passes. The statements
  \<open>n %= 100\<close> and \<open>n %= 10\<close> run only on \<open>n \<ge> 100\<close> and \<open>n \<ge> 20\<close>, where the
  JavaScript remainder is \<open>mod\<close>; the early \<open>return\<close> of the teens branch is the
  branch that skips the ones digit.
\<close>

definition convertLessThanThousand :: "int \<Rightarrow> string" where
  "convertLessThanThousand n0 =
     (if n0 = 0 then ''''
      else
        let r1 = (if n0 \<ge> 100 then js_index ones (n0 div 100) @ '' Hundred '' else '''');
            n1 = (if n0 \<ge> 100 then n0 mod 100 else n0)
        in if n1 \<ge> 20 then
             (let r2 = r1 @ js_index tens (n1 div 10) @ '' '';
                  n2 = n1 mod 10
              in if n2 > 0 then r2 @ js_index ones n2 @ '' '' else r2)
           else if n1 \<ge> 10 then r1 @ js_index teens (n1 - 10) @ '' ''
           else if n1 > 0 then r1 @ js_index ones n1 @ '' ''
           else r1)"

text \<open>\<open>String.prototype.trim\<close>: white space is removed at both ends.\<close>

definition is_space :: "char \<Rightarrow> bool" where
  "is_space c \<longleftrightarrow> c \<in> set [CHR '' '', CHR 0x09, CHR 0x0A, CHR 0x0B, CHR 0x0C, CHR 0x0D]"

definition trim :: "string \<Rightarrow> string" where
  "trim s = rev (dropWhile is_space (rev (dropWhile is_space s)))"

text \<open>
  \<open>numberToWords\<close>. The argument is a JavaScript number (the order's
  \<open>total_amount\<close>, a decimal); it is modelled as a rational, \<open>Math.floor\<close> as the
  floor. The test \<open>num === 0\<close> is made on the argument itself, before the floor is taken.
\<close>

definition numberToWords :: "rat \<Rightarrow> string" where
  "numberToWords num =
     (if num = 0 then ''Zero''
      else
        let n = \<lfloor>num\<rfloor>;
            r1 = (if n \<ge> 1000000
                  then convertLessThanThousand (n div 1000000) @ ''Million '' else '''');
            n1 = (if n \<ge> 1000000 then n mod 1000000 else n);
            r2 = (if n1 \<ge> 1000
                  then r1 @ convertLessThanThousand (n1 div 1000) @ ''Thousand '' else r1);
            n2 = (if n1 \<ge> 1000 then n1 mod 1000 else n1);
            r3 = r2 @ convertLessThanThousand n2
        in trim r3 @ '' Only'')"

section \<open>The persisted schema (supabase/migrations)\<close>

text \<open>
  Identifiers are UUIDs generated by the database (\<open>gen_random_uuid()\<close>); they are
  modelled as naturals drawn from a counter, so that a generated identifier is new. The
  PostgreSQL type \<open>integer\<close> is the signed 32-bit range, \<open>numeric\<close> is an exact decimal
  (a rational here), a nullable column is an \<open>option\<close>.
\<close>

definition MAX_INTEGER :: int where
  "MAX_INTEGER = 2147483647"

definition MIN_INTEGER :: int where
  "MIN_INTEGER = - 2147483648"

definition fits_integer :: "int \<Rightarrow> bool" where
  "fits_integer n \<longleftrightarrow> MIN_INTEGER \<le> n \<and> n \<le> MAX_INTEGER"

datatype db_error =
    NotNullViolation
  | NumericValueOutOfRange
  | CheckViolation
  | UniqueViolation
  | ForeignKeyViolation
  | GeneratedAlways

text \<open>Table \<open>products\<close>, with the columns \<open>initial_stock\<close> and \<open>minimum_stock\<close> added later.\<close>

record product =
  pr_id :: nat
  pr_name :: string
  pr_description :: "string option"
  pr_sku :: string
  pr_price :: rat
  pr_category_id :: "nat option"
  pr_image_url :: "string option"
  pr_initial_stock :: int
  pr_minimum_stock :: int

text \<open>
  Table \<open>product_variants\<close>: \<open>size\<close>, \<open>color\<close>, \<open>variant_name\<close> and \<open>price\<close> are
  nullable; \<open>quantity\<close> is \<open>integer NOT NULL DEFAULT 0\<close> and carries no CHECK;
  \<open>minimum_quantity\<close> is \<open>integer NOT NULL DEFAULT 5\<close> with \<open>CHECK (minimum_quantity >= 0)\<close>;
  \<open>is_default\<close> is \<open>boolean NOT NULL DEFAULT false\<close>.
\<close>

record variant =
  v_id :: nat
  v_product_id :: nat
  v_variant_name :: "string option"
  v_size :: "string option"
  v_color :: "string option"
  v_price :: "rat option"
  v_quantity :: int
  v_minimum_quantity :: int
  v_is_default :: bool

text \<open>
  Table \<open>orders\<close> after the migration that renames \<open>total_amount\<close> to
  \<open>subtotal_amount\<close> and adds the charges and the generated \<open>total_amount\<close>.
\<close>

record order_row =
  o_id :: nat
  o_customer_id :: nat
  o_status :: string
  o_subtotal_amount :: rat
  o_tax_amount :: rat
  o_shipping_amount :: rat
  o_discount_amount :: rat
  o_total_amount :: rat
  o_delivery_address_line1 :: "string option"
  o_delivery_address_line2 :: "string option"
  o_delivery_city :: "string option"
  o_delivery_state :: "string option"
  o_delivery_postal_code :: "string option"
  o_delivery_country :: "string option"

text \<open>Table \<open>order_items\<close>: \<open>quantity integer NOT NULL\<close>, \<open>price decimal NOT NULL\<close>.\<close>

record order_item_row =
  oi_id :: nat
  oi_order_id :: nat
  oi_product_id :: "nat option"
  oi_variant_id :: "nat option"
  oi_quantity :: int
  oi_price :: rat

text \<open>
  The database: the tables of products, variants, orders and order items, the
  identifier counter, and the number of write statements the client has sent so far (a
  statement that the database rejects was still sent).
\<close>

record db =
  products :: "product list"
  product_variants :: "variant list"
  orders :: "order_row list"
  order_items :: "order_item_row list"
  next_id :: nat
  write_requests :: nat

text \<open>The database before anything is written.\<close>

definition empty_db :: db where
  "empty_db = \<lparr>products = [], product_variants = [], orders = [], order_items = [],
               next_id = 0, write_requests = 0\<rparr>"

text \<open>A statement was sent.\<close>

definition sent :: "db \<Rightarrow> db" where
  "sent d = d\<lparr>write_requests := write_requests d + 1\<rparr>"

subsection \<open>Writes to \<open>products\<close>\<close>

text \<open>
  The body of a product insert or update. \<open>None\<close> is a JSON \<open>null\<close>: what
  \<open>parseFloat\<close> and \<open>parseInt\<close> serialise to when they give \<open>NaN\<close>. The triggers
  that log to \<open>admin_actions\<close> and stamp \<open>updated_at\<close> touch no column modelled here.
  A number outside \<open>integer\<close> is refused when the values of the statement are
  converted to the column types, before any NOT NULL or CHECK constraint is looked at.
\<close>

record product_data =
  pd_name :: string
  pd_description :: "string option"
  pd_sku :: string
  pd_price :: "rat option"
  pd_category_id :: "nat option"
  pd_image_url :: "string option"
  pd_initial_stock :: "int option"
  pd_minimum_stock :: "int option"

definition build_product :: "nat \<Rightarrow> product_data \<Rightarrow> db_error + product" where
  "build_product i x =
     (if (case pd_initial_stock x of None \<Rightarrow> False | Some s \<Rightarrow> \<not> fits_integer s) \<or>
         (case pd_minimum_stock x of None \<Rightarrow> False | Some m \<Rightarrow> \<not> fits_integer m)
      then Inl NumericValueOutOfRange
      else
        (case pd_price x of
           None \<Rightarrow> Inl NotNullViolation
         | Some pr \<Rightarrow>
             (case pd_initial_stock x of
                None \<Rightarrow> Inl NotNullViolation
              | Some s \<Rightarrow>
                  (case pd_minimum_stock x of
                     None \<Rightarrow> Inl NotNullViolation
                   | Some m \<Rightarrow>
                       if s < 0 \<or> m < 0 then Inl CheckViolation
                       else Inr \<lparr>pr_id = i, pr_name = pd_name x,
                                  pr_description = pd_description x, pr_sku = pd_sku x,
                                  pr_price = pr, pr_category_id = pd_category_id x,
                                  pr_image_url = pd_image_url x, pr_initial_stock = s,
                                  pr_minimum_stock = m\<rparr>))))"

text \<open>\<open>.insert([productData]).select().single()\<close>: the new row's identifier comes back.\<close>

definition insert_product :: "product_data \<Rightarrow> db \<Rightarrow> (db_error + nat) \<times> db" where
  "insert_product x d =
     (case build_product (next_id d) x of
        Inl e \<Rightarrow> (Inl e, sent d)
      | Inr row \<Rightarrow>
          if pr_sku row \<in> set (map pr_sku (products d)) then (Inl UniqueViolation, sent d)
          else (Inr (next_id d),
                (sent d)\<lparr>products := products d @ [row], next_id := next_id d + 1\<rparr>))"

definition update_product :: "nat \<Rightarrow> product_data \<Rightarrow> db \<Rightarrow> db_error option \<times> db" where
  "update_product i x d =
     (if \<not> (\<exists>p \<in> set (products d). pr_id p = i) then (None, sent d)
      else
        (case build_product i x of
           Inl e \<Rightarrow> (Some e, sent d)
         | Inr row \<Rightarrow>
             if pr_sku row \<in> set (map pr_sku (filter (\<lambda>p. pr_id p \<noteq> i) (products d)))
             then (Some UniqueViolation, sent d)
             else (None, (sent d)\<lparr>products :=
                     map (\<lambda>p. if pr_id p = i then row else p) (products d)\<rparr>)))"

subsection \<open>Writes to \<open>product_variants\<close>\<close>

text \<open>
  The body of an insert or a full update, as the client serialises it: \<open>None\<close> is a JSON
  \<open>null\<close> (also what \<open>NaN\<close> serialises to). A column the client leaves out is given its
  column default by the caller of \<open>insert_variant\<close>.
\<close>

record variant_data =
  d_product_id :: nat
  d_variant_name :: "string option"
  d_size :: "string option"
  d_color :: "string option"
  d_price :: "rat option"
  d_quantity :: "int option"
  d_minimum_quantity :: "int option"
  d_is_default :: bool

text \<open>The column types, NOT NULL and CHECK constraints of one row.\<close>

definition build_variant :: "nat \<Rightarrow> variant_data \<Rightarrow> db_error + variant" where
  "build_variant i x =
     (if (case d_quantity x of None \<Rightarrow> False | Some q \<Rightarrow> \<not> fits_integer q) \<or>
         (case d_minimum_quantity x of None \<Rightarrow> False | Some m \<Rightarrow> \<not> fits_integer m)
      then Inl NumericValueOutOfRange
      else
        (case d_quantity x of
           None \<Rightarrow> Inl NotNullViolation
         | Some q \<Rightarrow>
             (case d_minimum_quantity x of
                None \<Rightarrow> Inl NotNullViolation
              | Some m \<Rightarrow>
                  if m < 0 then Inl CheckViolation
                  else if (case d_price x of None \<Rightarrow> False | Some p \<Rightarrow> p < 0)
                    then Inl CheckViolation
                  else Inr \<lparr>v_id = i, v_product_id = d_product_id x,
                             v_variant_name = d_variant_name x, v_size = d_size x,
                             v_color = d_color x, v_price = d_price x, v_quantity = q,
                             v_minimum_quantity = m, v_is_default = d_is_default x\<rparr>)))"

text \<open>
  The migration goes on to
  \<open>ALTER TABLE product_variants ADD CONSTRAINT one_default_variant_per_product
  UNIQUE (product_id, is_default) WHERE (is_default = true)\<close>. A table constraint takes no
  \<open>WHERE\<close> clause (only \<open>CREATE UNIQUE INDEX\<close> does), so PostgreSQL refuses that
  statement, and no other migration creates such an index: the table has no uniqueness
  rule on \<open>is_default\<close>, and the writes below check none.

  \<open>product_id\<close> references \<open>products(id)\<close>.
\<close>

definition product_ids :: "db \<Rightarrow> nat list" where
  "product_ids d = map pr_id (products d)"

definition insert_variant :: "variant_data \<Rightarrow> db \<Rightarrow> db_error option \<times> db" where
  "insert_variant x d =
     (case build_variant (next_id d) x of
        Inl e \<Rightarrow> (Some e, sent d)
      | Inr row \<Rightarrow>
          if v_product_id row \<notin> set (product_ids d) then (Some ForeignKeyViolation, sent d)
          else (None, (sent d)\<lparr>product_variants := product_variants d @ [row],
                                 next_id := next_id d + 1\<rparr>))"

text \<open>
  \<open>.update(variantData).eq('id', i)\<close>: every column of the matching row is rewritten.
  With no such row nothing is checked.
\<close>

definition update_variant :: "nat \<Rightarrow> variant_data \<Rightarrow> db \<Rightarrow> db_error option \<times> db" where
  "update_variant i x d =
     (if \<not> (\<exists>v \<in> set (product_variants d). v_id v = i) then (None, sent d)
      else
        (case build_variant i x of
           Inl e \<Rightarrow> (Some e, sent d)
         | Inr row \<Rightarrow>
             if v_product_id row \<notin> set (product_ids d) then (Some ForeignKeyViolation, sent d)
             else (None, (sent d)\<lparr>product_variants :=
                     map (\<lambda>v. if v_id v = i then row else v) (product_variants d)\<rparr>)))"

text \<open>\<open>.update({ quantity: q }).eq('id', i)\<close>.\<close>

definition update_variant_quantity :: "nat \<Rightarrow> int \<Rightarrow> db \<Rightarrow> db_error option \<times> db" where
  "update_variant_quantity i q d =
     (if \<not> fits_integer q then (Some NumericValueOutOfRange, sent d)
      else (None, (sent d)\<lparr>product_variants :=
              map (\<lambda>v. if v_id v = i then v\<lparr>v_quantity := q\<rparr> else v) (product_variants d)\<rparr>))"

text \<open>
  \<open>.delete().eq('product_id', p)\<close>. \<open>order_items.variant_id\<close> references
  \<open>product_variants(id)\<close> without a cascade, so a variant that an order item names
  cannot be deleted and the statement fails as a whole.
\<close>

definition delete_variants_of :: "nat \<Rightarrow> db \<Rightarrow> db_error option \<times> db" where
  "delete_variants_of p d =
     (if \<exists>v \<in> set (product_variants d). v_product_id v = p \<and>
           (\<exists>it \<in> set (order_items d). oi_variant_id it = Some (v_id v))
      then (Some ForeignKeyViolation, sent d)
      else (None, (sent d)\<lparr>product_variants :=
              filter (\<lambda>v. v_product_id v \<noteq> p) (product_variants d)\<rparr>))"

subsection \<open>Writes to \<open>orders\<close> and \<open>order_items\<close>\<close>

text \<open>
  The body of an order insert. \<open>od_total_amount\<close> is \<open>Some\<close> when the statement names
  the column \<open>total_amount\<close>, which is \<open>GENERATED ALWAYS AS (subtotal_amount + tax_amount
  + shipping_amount - discount_amount) STORED\<close>: such a statement is refused. The four
  amounts are NOT NULL with \<open>CHECK (... >= 0)\<close>. Customers are not on file here, so the
  reference \<open>customer_id\<close> is not checked.
\<close>

record order_data =
  od_customer_id :: nat
  od_status :: string
  od_subtotal_amount :: "rat option"
  od_tax_amount :: "rat option"
  od_shipping_amount :: "rat option"
  od_discount_amount :: "rat option"
  od_total_amount :: "rat option"
  od_delivery_address_line1 :: "string option"
  od_delivery_address_line2 :: "string option"
  od_delivery_city :: "string option"
  od_delivery_state :: "string option"
  od_delivery_postal_code :: "string option"
  od_delivery_country :: "string option"

definition insert_order :: "order_data \<Rightarrow> db \<Rightarrow> (db_error + nat) \<times> db" where
  "insert_order x d =
     (if od_total_amount x \<noteq> None then (Inl GeneratedAlways, sent d)
      else
        (case od_subtotal_amount x of
           None \<Rightarrow> (Inl NotNullViolation, sent d)
         | Some subtotal \<Rightarrow>
         (case od_tax_amount x of
           None \<Rightarrow> (Inl NotNullViolation, sent d)
         | Some tax \<Rightarrow>
         (case od_shipping_amount x of
           None \<Rightarrow> (Inl NotNullViolation, sent d)
         | Some shipping \<Rightarrow>
         (case od_discount_amount x of
           None \<Rightarrow> (Inl NotNullViolation, sent d)
         | Some discount \<Rightarrow>
             if subtotal < 0 \<or> tax < 0 \<or> shipping < 0 \<or> discount < 0
             then (Inl CheckViolation, sent d)
             else (Inr (next_id d),
                   (sent d)\<lparr>orders := orders d @
                      [\<lparr>o_id = next_id d, o_customer_id = od_customer_id x,
                        o_status = od_status x, o_subtotal_amount = subtotal,
                        o_tax_amount = tax, o_shipping_amount = shipping,
                        o_discount_amount = discount,
                        o_total_amount = subtotal + tax + shipping - discount,
                        o_delivery_address_line1 = od_delivery_address_line1 x,
                        o_delivery_address_line2 = od_delivery_address_line2 x,
                        o_delivery_city = od_delivery_city x,
                        o_delivery_state = od_delivery_state x,
                        o_delivery_postal_code = od_delivery_postal_code x,
                        o_delivery_country = od_delivery_country x\<rparr>],
                      next_id := next_id d + 1\<rparr>))))))"

text \<open>
  \<open>.update({ status: s }).eq('id', i)\<close>. A stored generated column is computed again
  whenever its row is updated.
\<close>

definition update_order_status :: "nat \<Rightarrow> string \<Rightarrow> db \<Rightarrow> db_error option \<times> db" where
  "update_order_status i s d =
     (None, (sent d)\<lparr>orders :=
        map (\<lambda>r. if o_id r = i
                 then r\<lparr>o_status := s,
                        o_total_amount := o_subtotal_amount r + o_tax_amount r +
                                          o_shipping_amount r - o_discount_amount r\<rparr>
                 else r) (orders d)\<rparr>)"

text \<open>
  One row of \<open>.from('order_items').insert(orderItems)\<close>: \<open>quantity integer NOT NULL\<close>,
  \<open>price decimal NOT NULL\<close>, and the references to the order, the product and the
  variant.
\<close>

record order_item_data =
  oid_order_id :: nat
  oid_product_id :: "nat option"
  oid_variant_id :: "nat option"
  oid_quantity :: "int option"
  oid_price :: "rat option"

definition build_order_item :: "db \<Rightarrow> nat \<Rightarrow> order_item_data \<Rightarrow> db_error + order_item_row" where
  "build_order_item d i x =
     (if (case oid_quantity x of None \<Rightarrow> False | Some q \<Rightarrow> \<not> fits_integer q)
      then Inl NumericValueOutOfRange
      else
        (case oid_quantity x of
           None \<Rightarrow> Inl NotNullViolation
         | Some q \<Rightarrow>
             (case oid_price x of
                None \<Rightarrow> Inl NotNullViolation
              | Some pr \<Rightarrow>
                  if oid_order_id x \<notin> set (map o_id (orders d)) then Inl ForeignKeyViolation
                  else if (case oid_product_id x of None \<Rightarrow> False
                           | Some p \<Rightarrow> p \<notin> set (product_ids d))
                    then Inl ForeignKeyViolation
                  else if (case oid_variant_id x of None \<Rightarrow> False
                           | Some v \<Rightarrow> v \<notin> set (map v_id (product_variants d)))
                    then Inl ForeignKeyViolation
                  else Inr \<lparr>oi_id = i, oi_order_id = oid_order_id x,
                             oi_product_id = oid_product_id x,
                             oi_variant_id = oid_variant_id x, oi_quantity = q,
                             oi_price = pr\<rparr>)))"

text \<open>The rows of one insert statement are stored together or not at all.\<close>

fun build_order_items :: "db \<Rightarrow> nat \<Rightarrow> order_item_data list \<Rightarrow> db_error + order_item_row list" where
  "build_order_items d i [] = Inr []"
| "build_order_items d i (x # xs) =
     (case build_order_item d i x of
        Inl e \<Rightarrow> Inl e
      | Inr row \<Rightarrow>
          (case build_order_items d (i + 1) xs of
             Inl e \<Rightarrow> Inl e
           | Inr rows \<Rightarrow> Inr (row # rows)))"

definition insert_order_items :: "order_item_data list \<Rightarrow> db \<Rightarrow> db_error option \<times> db" where
  "insert_order_items xs d =
     (case build_order_items d (next_id d) xs of
        Inl e \<Rightarrow> (Some e, sent d)
      | Inr rows \<Rightarrow>
          (None, (sent d)\<lparr>order_items := order_items d @ rows,
                           next_id := next_id d + length rows\<rparr>))"

text \<open>
  What a handler leaves on the screen: an \<open>alert\<close>, a navigation (to a list, or to
  the page of an order), the saved state,
  a submit the browser did not raise, a message set with \<open>setError\<close> or
  \<open>setSkuError\<close>, or the catch block's report of a database error.
\<close>

datatype outcome =
    Alert string
  | Navigate string
  | NavigateOrder nat
  | Saved
  | Blocked
  | FormError string
  | Rejected db_error

section \<open>Manual override of a quantity (src/pages/Inventory.tsx)\<close>

text \<open>
  \<open>handleQuantityChange\<close>. The argument comes from \<open>parseInt(e.target.value) || 0\<close>, an
  integer.
\<close>

definition Inventory_handleQuantityChange :: "nat \<Rightarrow> int \<Rightarrow> db \<Rightarrow> outcome \<times> db" where
  "Inventory_handleQuantityChange i newQuantity d =
     (if newQuantity > MAX_INTEGER \<or> newQuantity < MIN_INTEGER
      then (Alert ''Please enter a valid quantity between -2,147,483,648 and 2,147,483,647'', d)
      else if newQuantity < 0 then (Alert ''Quantity cannot be negative'', d)
      else (case update_variant_quantity i newQuantity d of
              (Some e, d') \<Rightarrow> (Alert ''Failed to update quantity. Please try again.'', d')
            | (None, d') \<Rightarrow> (Saved, d')))"

section \<open>Receiving stock (src/pages/StockForm.tsx)\<close>

text \<open>
  The form state. \<open>product_id\<close> is the empty string until a product is chosen
  (\<open>None\<close> here); \<open>quantity\<close> is \<open>parseInt(value) || 0\<close>, an integer.
\<close>

record StockFormData =
  sf_product_id :: "nat option"
  sf_size :: string
  sf_color :: string
  sf_quantity :: int

text \<open>\<open>s || null\<close> on a string: the empty string is falsy.\<close>

definition or_null :: "string \<Rightarrow> string option" where
  "or_null s = (if s = [] then None else Some s)"

text \<open>
  \<open>.eq(column, value)\<close> on a text column. The client library writes the filter as
  \<open>column=eq.<value>\<close>, so a \<open>null\<close> argument travels as the text \<open>null\<close>; an
  equality never holds on a column that is NULL (that takes \<open>.is\<close>).
\<close>

definition eq_filter :: "string option \<Rightarrow> string option \<Rightarrow> bool" where
  "eq_filter col v = (col = Some (case v of None \<Rightarrow> ''null'' | Some s \<Rightarrow> s))"

text \<open>\<open>.single()\<close>: the row when exactly one row matches, otherwise no data (and an error).\<close>

definition single :: "'a list \<Rightarrow> 'a option" where
  "single rows = (case rows of [r] \<Rightarrow> Some r | _ \<Rightarrow> None)"

definition matching_variants :: "nat \<Rightarrow> string \<Rightarrow> string \<Rightarrow> db \<Rightarrow> variant list" where
  "matching_variants p sz col d =
     filter (\<lambda>v. v_product_id v = p \<and> eq_filter (v_size v) (or_null sz) \<and>
                  eq_filter (v_color v) (or_null col)) (product_variants d)"

text \<open>
  \<open>handleSubmit\<close>. Only \<open>data\<close> of the lookup is read, so its error (no row, or several)
  leads to the insert. The insert names \<open>product_id\<close>, \<open>size\<close>, \<open>color\<close> and
  \<open>quantity\<close>; the other columns take their defaults.
\<close>

definition StockForm_handleSubmit :: "StockFormData \<Rightarrow> db \<Rightarrow> outcome \<times> db" where
  "StockForm_handleSubmit formData d =
     (case sf_product_id formData of
        None \<Rightarrow> (Alert ''Please select a product'', d)
      | Some p \<Rightarrow>
          (case single (matching_variants p (sf_size formData) (sf_color formData) d) of
             Some existingVariant \<Rightarrow>
               (case update_variant_quantity (v_id existingVariant)
                       (v_quantity existingVariant + sf_quantity formData) d of
                  (Some e, d') \<Rightarrow> (Alert ''Failed to save stock. Please try again.'', d')
                | (None, d') \<Rightarrow> (Navigate ''/inventory'', d'))
           | None \<Rightarrow>
               (case insert_variant
                       \<lparr>d_product_id = p, d_variant_name = None,
                        d_size = or_null (sf_size formData),
                        d_color = or_null (sf_color formData), d_price = None,
                        d_quantity = Some (sf_quantity formData),
                        d_minimum_quantity = Some 5, d_is_default = False\<rparr> d of
                  (Some e, d') \<Rightarrow> (Alert ''Failed to save stock. Please try again.'', d')
                | (None, d') \<Rightarrow> (Navigate ''/inventory'', d'))))"

text \<open>
  The form around it: the quantity field is \<open>type="number" required min="1"\<close>, so the
  browser does not raise the submit event for a quantity below 1. The field has no
  \<open>max\<close>.
\<close>

definition StockForm_submit :: "StockFormData \<Rightarrow> db \<Rightarrow> outcome \<times> db" where
  "StockForm_submit formData d =
     (if sf_quantity formData < 1 then (Blocked, d) else StockForm_handleSubmit formData d)"

text \<open>Receiving \<open>q\<close> units under a key, and the quantity then stored under the key.\<close>

definition receive_stock :: "nat \<Rightarrow> string \<Rightarrow> string \<Rightarrow> int \<Rightarrow> db \<Rightarrow> db" where
  "receive_stock p sz col q d =
     snd (StockForm_handleSubmit
            \<lparr>sf_product_id = Some p, sf_size = sz, sf_color = col, sf_quantity = q\<rparr> d)"

definition key_quantity :: "nat \<Rightarrow> string \<Rightarrow> string \<Rightarrow> db \<Rightarrow> int option" where
  "key_quantity p sz col d = map_option v_quantity (single (matching_variants p sz col d))"

section \<open>Creating and editing products (src/pages/ProductForm.tsx, ProductDetails)\<close>

text \<open>
  One variant of the form state (interface \<open>Variant\<close> of ProductForm, \<open>ProductVariant\<close>
  of ProductDetails). The numbers come from \<open>parseFloat\<close> and \<open>parseInt\<close> of the
  fields: \<open>None\<close> is \<open>NaN\<close>. The texts of a variant loaded from the database can
  be \<open>null\<close>.
\<close>

record Variant =
  fv_id :: "nat option"
  fv_variant_name :: "string option"
  fv_size :: "string option"
  fv_color :: "string option"
  fv_price :: "rat option"
  fv_quantity :: "int option"
  fv_minimum_quantity :: "int option"
  fv_is_default :: bool

text \<open>
  The product fields of the form state. \<open>price\<close> stands for \<open>parseFloat(formData.price)\<close>,
  \<open>category_id\<close> for \<open>formData.category_id || null\<close>; the stocks are
  \<open>parseInt(value) || 0\<close>.
\<close>

record ProductFormData =
  pf_name :: string
  pf_description :: string
  pf_sku :: string
  pf_price :: "rat option"
  pf_category_id :: "nat option"
  pf_image_url :: "string option"
  pf_initial_stock :: int
  pf_minimum_stock :: int
  pf_variants :: "Variant list"

text \<open>\<open>x || y\<close> on numbers: \<open>0\<close> and \<open>NaN\<close> are falsy.\<close>

definition js_or :: "'a::zero option \<Rightarrow> 'a option \<Rightarrow> 'a option" where
  "js_or x y = (case x of None \<Rightarrow> y | Some v \<Rightarrow> if v = 0 then y else Some v)"

text \<open>\<open>checkSkuExists\<close> of ProductForm; \<open>limit(1)\<close> reads the first row with the SKU.\<close>

definition ProductForm_checkSkuExists :: "nat option \<Rightarrow> string \<Rightarrow> db \<Rightarrow> bool" where
  "ProductForm_checkSkuExists i sku d =
     (case filter (\<lambda>p. pr_sku p = sku) (products d) of
        [] \<Rightarrow> False
      | p # _ \<Rightarrow> i \<noteq> Some (pr_id p))"

text \<open>
  The inserts of \<open>Promise.all(variantPromises)\<close>, taken in the order of the list: no
  result is read, so a refused insert is skipped.
\<close>

definition insert_variants :: "variant_data list \<Rightarrow> db \<Rightarrow> db" where
  "insert_variants xs d = foldl (\<lambda>d x. snd (insert_variant x d)) d xs"

text \<open>
  \<open>handleSubmit\<close> of ProductForm. \<open>i\<close> is the route's product identifier (absent when
  a product is created), \<open>hasVariants\<close> the state flag set by \<open>addVariant\<close>. No image
  file is chosen, so \<open>imageUrl\<close> is the form's.
\<close>

definition ProductForm_handleSubmit ::
  "nat option \<Rightarrow> bool \<Rightarrow> ProductFormData \<Rightarrow> db \<Rightarrow> outcome \<times> db" where
  "ProductForm_handleSubmit i hasVariants formData d =
     (if ProductForm_checkSkuExists i (pf_sku formData) d
      then (FormError ''This SKU is already in use. Please enter a unique SKU.'', d)
      else
        let productData =
              \<lparr>pd_name = pf_name formData, pd_description = Some (pf_description formData),
               pd_sku = pf_sku formData, pd_price = pf_price formData,
               pd_category_id = pf_category_id formData,
               pd_image_url = pf_image_url formData,
               pd_initial_stock = Some (pf_initial_stock formData),
               pd_minimum_stock = Some (pf_minimum_stock formData)\<rparr>
        in case i of
             Some j \<Rightarrow>
               (case update_product j productData d of
                  (Some e, d') \<Rightarrow> (Rejected e, d')
                | (None, d') \<Rightarrow> (Navigate ''/products'', d'))
           | None \<Rightarrow>
               (case insert_product productData d of
                  (Inl e, d') \<Rightarrow> (Rejected e, d')
                | (Inr productId, d') \<Rightarrow>
                    if hasVariants \<and> length (pf_variants formData) > 0
                    then (Navigate ''/products'',
                          insert_variants
                            (map (\<lambda>variant.
                                   \<lparr>d_product_id = productId,
                                    d_variant_name = fv_variant_name variant,
                                    d_size = Option.bind (fv_size variant) or_null,
                                    d_color = Option.bind (fv_color variant) or_null,
                                    d_price = js_or (fv_price variant) (pf_price formData),
                                    d_quantity =
                                      js_or (fv_quantity variant) (Some (pf_initial_stock formData)),
                                    d_minimum_quantity =
                                      js_or (fv_minimum_quantity variant)
                                        (Some (pf_minimum_stock formData)),
                                    d_is_default = fv_is_default variant\<rparr>)
                               (pf_variants formData)) d')
                    else
                      (case insert_variant
                              \<lparr>d_product_id = productId, d_variant_name = None, d_size = None,
                               d_color = None, d_price = None,
                               d_quantity = Some (pf_initial_stock formData),
                               d_minimum_quantity = Some (pf_minimum_stock formData),
                               d_is_default = True\<rparr> d' of
                         (Some e, d'') \<Rightarrow> (Rejected e, d'')
                       | (None, d'') \<Rightarrow> (Navigate ''/products'', d''))))"

text \<open>
  ProductDetails. \<open>checkSkuExists\<close> asks for a product with the SKU and another
  identifier; \<open>handleSave\<close> updates the product and then writes the variants, reading
  no result of those writes. \<open>editedProduct\<close> is given as the update's body (its numbers are
  \<open>parseInt\<close> of the fields).
\<close>

definition ProductDetails_checkSkuExists :: "nat \<Rightarrow> string \<Rightarrow> db \<Rightarrow> bool" where
  "ProductDetails_checkSkuExists i sku d =
     (filter (\<lambda>p. pr_sku p = sku \<and> pr_id p \<noteq> i) (products d) \<noteq> [])"

definition save_variant :: "nat \<Rightarrow> Variant \<Rightarrow> db \<Rightarrow> db" where
  "save_variant productId variant d =
     (let variantData =
            \<lparr>d_product_id = productId, d_variant_name = fv_variant_name variant,
             d_size = Option.bind (fv_size variant) or_null,
             d_color = Option.bind (fv_color variant) or_null,
             d_price = fv_price variant, d_quantity = fv_quantity variant,
             d_minimum_quantity = fv_minimum_quantity variant,
             d_is_default = fv_is_default variant\<rparr>
      in case fv_id variant of
           Some j \<Rightarrow> snd (update_variant j variantData d)
         | None \<Rightarrow> snd (insert_variant variantData d))"

definition ProductDetails_handleSave ::
  "nat \<Rightarrow> product_data \<Rightarrow> bool \<Rightarrow> Variant list \<Rightarrow> db \<Rightarrow> outcome \<times> db" where
  "ProductDetails_handleSave productId editedProduct hasVariants variants d =
     (if hasVariants \<and> \<not> (\<exists>v \<in> set variants. fv_is_default v)
      then (FormError ''One variant must be marked as default'', d)
      else if ProductDetails_checkSkuExists productId (pd_sku editedProduct) d
      then (FormError ''This SKU is already in use by another product'', d)
      else
        (case update_product productId editedProduct d of
           (Some e, d1) \<Rightarrow> (Rejected e, d1)
         | (None, d1) \<Rightarrow>
             if hasVariants
             then (Saved, foldl (\<lambda>d v. save_variant productId v d) d1 variants)
             else (Saved,
                   snd (insert_variant
                          \<lparr>d_product_id = productId, d_variant_name = None, d_size = None,
                           d_color = None, d_price = None,
                           d_quantity = pd_initial_stock editedProduct,
                           d_minimum_quantity = pd_minimum_stock editedProduct,
                           d_is_default = True\<rparr>
                          (snd (delete_variants_of productId d1))))))"

section \<open>Entering an order (src/pages/OrderForm.tsx)\<close>

text \<open>
  The products as \<open>fetchProducts\<close> loads them, each with its variants. Of a variant the
  query selects \<open>id\<close>, \<open>variant_name\<close>, \<open>size\<close>, \<open>color\<close>, \<open>price\<close> and
  \<open>quantity\<close>: the flag \<open>is_default\<close> is not loaded.
\<close>

record ProductVariant =
  pv_id :: nat
  pv_variant_name :: "string option"
  pv_size :: "string option"
  pv_color :: "string option"
  pv_price :: "rat option"
  pv_quantity :: int

record Product =
  p_id :: nat
  p_name :: string
  p_sku :: string
  p_price :: rat
  p_variants :: "ProductVariant list"

definition fetched_variant :: "variant \<Rightarrow> ProductVariant" where
  "fetched_variant v =
     \<lparr>pv_id = v_id v, pv_variant_name = v_variant_name v, pv_size = v_size v,
      pv_color = v_color v, pv_price = v_price v, pv_quantity = v_quantity v\<rparr>"

text \<open>
  \<open>fetchProducts\<close>. The query orders the products by name; the handlers look a product
  up by its identifier, so the table's order is kept here.
\<close>

definition fetchProducts :: "db \<Rightarrow> Product list" where
  "fetchProducts d =
     map (\<lambda>p. \<lparr>p_id = pr_id p, p_name = pr_name p, p_sku = pr_sku p, p_price = pr_price p,
                p_variants = map fetched_variant
                  (filter (\<lambda>v. v_product_id v = pr_id p) (product_variants d))\<rparr>)
       (products d)"

text \<open>
  A line of the order form. \<open>product_id\<close> is the empty string until a product is chosen
  (\<open>None\<close>); \<open>quantity\<close> comes from \<open>parseInt\<close> (\<open>None\<close> is \<open>NaN\<close>); \<open>price\<close> can
  be the \<open>null\<close> of a variant without a price.
\<close>

record OrderItem =
  it_product_id :: "nat option"
  it_variant_id :: "nat option"
  it_quantity :: "int option"
  it_price :: "rat option"
  it_product :: "Product option"
  it_variant :: "ProductVariant option"

definition blank_item :: OrderItem where
  "blank_item = \<lparr>it_product_id = None, it_variant_id = None, it_quantity = Some 1,
                 it_price = Some 0, it_product = None, it_variant = None\<rparr>"

text \<open>A string as a condition: \<open>null\<close> and the empty string are falsy.\<close>

definition truthy :: "string option \<Rightarrow> bool" where
  "truthy s = (case s of None \<Rightarrow> False | Some t \<Rightarrow> t \<noteq> [])"

text \<open>The variant that \<open>handleProductChange\<close> binds to \<open>defaultVariant\<close>.\<close>

definition defaultVariant :: "Product \<Rightarrow> ProductVariant option" where
  "defaultVariant product =
     (let hasVariantsInStock = (\<exists>v \<in> set (p_variants product). pv_quantity v > 0)
      in if hasVariantsInStock
         then find (\<lambda>v. pv_quantity v > 0 \<and> truthy (pv_variant_name v)) (p_variants product)
         else None)"

text \<open>
  \<open>handleProductChange\<close>, with the state \<open>products\<close> as \<open>productsState\<close>.
  \<open>prev.map((item, i) => i === index ? new : item)\<close> is the list update, which leaves
  the list alone when the index is out of range.
\<close>

definition handleProductChange ::
  "Product list \<Rightarrow> nat \<Rightarrow> nat \<Rightarrow> OrderItem list \<Rightarrow> OrderItem list" where
  "handleProductChange productsState index productId items =
     (case find (\<lambda>p. p_id p = productId) productsState of
        None \<Rightarrow> items
      | Some product \<Rightarrow>
          items[index :=
            \<lparr>it_product_id = Some productId,
             it_variant_id = map_option pv_id (defaultVariant product),
             it_quantity = Some 1,
             it_price = js_or (Option.bind (defaultVariant product) pv_price)
                          (Some (p_price product)),
             it_product = Some product,
             it_variant = defaultVariant product\<rparr>])"

text \<open>
  \<open>handleVariantChange\<close>. With no item at the index the handler throws on
  \<open>item.product\<close> and the state stays as it was.
\<close>

definition handleVariantChange :: "nat \<Rightarrow> nat \<Rightarrow> OrderItem list \<Rightarrow> OrderItem list" where
  "handleVariantChange index variantId items =
     (if index < length items
      then
        (let item = items ! index
         in case it_product item of
              None \<Rightarrow> items
            | Some product \<Rightarrow>
                (case find (\<lambda>v. pv_id v = variantId) (p_variants product) of
                   None \<Rightarrow> items
                 | Some variant \<Rightarrow>
                     items[index := item\<lparr>it_variant_id := Some variantId,
                                         it_price := pv_price variant,
                                         it_variant := Some variant\<rparr>]))
      else items)"

definition addItem :: "OrderItem list \<Rightarrow> OrderItem list" where
  "addItem items = items @ [blank_item]"

definition OrderForm_handleQuantityChange ::
  "nat \<Rightarrow> int option \<Rightarrow> OrderItem list \<Rightarrow> OrderItem list" where
  "OrderForm_handleQuantityChange index quantity items =
     (if index < length items then items[index := (items ! index)\<lparr>it_quantity := quantity\<rparr>]
      else items)"

text \<open>
  \<open>calculateSubtotal\<close>: \<open>items.reduce((total, item) => total + item.price *
  item.quantity, 0)\<close>. In the product a \<open>null\<close> price counts as 0; \<open>NaN\<close> spreads
  (\<open>None\<close>). JavaScript numbers are doubles: the sums and products of the model are
  exact, as those of the code are on whole numbers below \<open>2^53\<close> and are not on
  fractions in general (\<open>0.1 + 0.2\<close> is \<open>0.30000000000000004\<close> there). The results below
  evaluate this function and the tax only at amounts where the doubles give the same
  numbers (whole prices and quantities, a tax of one tenth on 25 and on 30000000000), or
  hold whatever amounts the form sends.
\<close>

definition calculateSubtotal :: "OrderItem list \<Rightarrow> rat option" where
  "calculateSubtotal items =
     foldl (\<lambda>total item.
              case total of
                None \<Rightarrow> None
              | Some t \<Rightarrow>
                  (case it_quantity item of
                     None \<Rightarrow> None
                   | Some q \<Rightarrow>
                       Some (t + (case it_price item of None \<Rightarrow> 0 | Some p \<Rightarrow> p) * of_int q)))
       (Some 0) items"

text \<open>The charges of the form: the tax rate is \<open>parseFloat(value) / 100\<close>.\<close>

record Charges =
  ch_tax_rate :: "rat option"
  ch_shipping_amount :: rat
  ch_discount_amount :: rat

definition js_times :: "rat option \<Rightarrow> rat option \<Rightarrow> rat option" where
  "js_times a b = (case a of None \<Rightarrow> None | Some x \<Rightarrow> map_option (\<lambda>y. x * y) b)"

definition calculateTotal :: "Charges \<Rightarrow> OrderItem list \<Rightarrow> rat option" where
  "calculateTotal charges items =
     (let subtotal = calculateSubtotal items;
          tax = js_times subtotal (ch_tax_rate charges)
      in case subtotal of
           None \<Rightarrow> None
         | Some s \<Rightarrow>
             map_option (\<lambda>t. s + t + ch_shipping_amount charges - ch_discount_amount charges) tax)"

record DeliveryAddress =
  da_address_line1 :: string
  da_address_line2 :: string
  da_city :: string
  da_state :: string
  da_postal_code :: string
  da_country :: string

text \<open>
  \<open>handleSubmit\<close> of the order form: the order is inserted, then its items in a second
  statement; when that one fails the handler alerts and the order stays.
\<close>

definition OrderForm_handleSubmit ::
  "nat option \<Rightarrow> OrderItem list \<Rightarrow> DeliveryAddress \<Rightarrow> Charges \<Rightarrow> db \<Rightarrow> outcome \<times> db" where
  "OrderForm_handleSubmit selectedCustomer items deliveryAddress charges d =
     (case selectedCustomer of
        None \<Rightarrow> (Alert ''Please select a customer'', d)
      | Some customer \<Rightarrow>
          if \<exists>item \<in> set items. it_product_id item = None
          then (Alert ''Please select products for all items'', d)
          else if da_address_line1 deliveryAddress = [] \<or> da_city deliveryAddress = [] \<or>
                  da_postal_code deliveryAddress = []
          then (Alert ''Please provide a complete delivery address'', d)
          else
            let subtotal = calculateSubtotal items;
                tax = js_times subtotal (ch_tax_rate charges)
            in case insert_order
                      \<lparr>od_customer_id = customer, od_status = ''pending'',
                       od_subtotal_amount = subtotal, od_tax_amount = tax,
                       od_shipping_amount = Some (ch_shipping_amount charges),
                       od_discount_amount = Some (ch_discount_amount charges),
                       od_total_amount = None,
                       od_delivery_address_line1 = Some (da_address_line1 deliveryAddress),
                       od_delivery_address_line2 = or_null (da_address_line2 deliveryAddress),
                       od_delivery_city = Some (da_city deliveryAddress),
                       od_delivery_state = or_null (da_state deliveryAddress),
                       od_delivery_postal_code = Some (da_postal_code deliveryAddress),
                       od_delivery_country = or_null (da_country deliveryAddress)\<rparr> d of
                 (Inl e, d1) \<Rightarrow> (Alert ''Failed to create order. Please try again.'', d1)
               | (Inr orderId, d1) \<Rightarrow>
                   (case insert_order_items
                           (map (\<lambda>item. \<lparr>oid_order_id = orderId,
                                          oid_product_id = it_product_id item,
                                          oid_variant_id = it_variant_id item,
                                          oid_quantity = it_quantity item,
                                          oid_price = it_price item\<rparr>) items) d1 of
                      (Some e, d2) \<Rightarrow> (Alert ''Failed to create order. Please try again.'', d2)
                    | (None, d2) \<Rightarrow> (NavigateOrder orderId, d2)))"

text \<open>\<open>handleStatusChange\<close> of the order list; its catch block only logs.\<close>

definition Orders_handleStatusChange :: "nat \<Rightarrow> string \<Rightarrow> db \<Rightarrow> outcome \<times> db" where
  "Orders_handleStatusChange orderId newStatus d =
     (case update_order_status orderId newStatus d of
        (Some e, d') \<Rightarrow> (Rejected e, d')
      | (None, d') \<Rightarrow> (Saved, d'))"

section \<open>The printed invoice (src/pages/OrderDetails.tsx)\<close>

text \<open>
  The items table of \<open>printInvoice\<close>: a line shows \<open>item.price * item.quantity\<close>, the
  footer row shows \<open>order.subtotal_amount\<close>; both pass through \<open>formatCurrency\<close> for
  display. The lines are the order's rows of \<open>order_items\<close>.
\<close>

definition order_lines :: "db \<Rightarrow> nat \<Rightarrow> order_item_row list" where
  "order_lines d orderId = filter (\<lambda>it. oi_order_id it = orderId) (order_items d)"

definition invoice_line_amount :: "order_item_row \<Rightarrow> rat" where
  "invoice_line_amount item = oi_price item * of_int (oi_quantity item)"

definition invoice_footer_total :: "order_row \<Rightarrow> rat" where
  "invoice_footer_total order = o_subtotal_amount order"


section \<open>Invariants of the data\<close>

text \<open>
  The invariant of the default flag: no product has two variants flagged \<open>is_default\<close>.
  \<open>default_count\<close> counts the flagged variants of one product.
\<close>

definition default_count :: "nat \<Rightarrow> variant list \<Rightarrow> nat" where
  "default_count p vs = length (filter (\<lambda>v. v_product_id v = p \<and> v_is_default v) vs)"

definition one_default_per_product :: "db \<Rightarrow> bool" where
  "one_default_per_product d \<longleftrightarrow>
     (\<forall>p \<in> set (map v_product_id (product_variants d)).
        default_count p (product_variants d) \<le> 1)"

text \<open>
  A database in order: the identifiers on file were drawn from the counter, and every
  variant refers to a product on file.
\<close>

definition wf_db :: "db \<Rightarrow> bool" where
  "wf_db d \<longleftrightarrow>
     list_all (\<lambda>p. pr_id p < next_id d) (products d) \<and>
     list_all (\<lambda>v. v_product_id v \<in> set (product_ids d)) (product_variants d)"

text \<open>The invariant of the generated column, with the CHECK constraints of the amounts.\<close>

definition total_derived :: "order_row \<Rightarrow> bool" where
  "total_derived r \<longleftrightarrow>
     0 \<le> o_subtotal_amount r \<and> 0 \<le> o_tax_amount r \<and> 0 \<le> o_shipping_amount r \<and>
     0 \<le> o_discount_amount r \<and>
     o_total_amount r =
       o_subtotal_amount r + o_tax_amount r + o_shipping_amount r - o_discount_amount r"

definition orders_derived :: "db \<Rightarrow> bool" where
  "orders_derived d \<longleftrightarrow> list_all total_derived (orders d)"

section \<open>The variants in the state of ProductDetails\<close>

text \<open>
  The page keeps the flag \<open>hasVariants\<close> and the list \<open>variants\<close>. \<open>fetchProduct\<close> loads
  the rows of the product in the order they were created and sets the flag when one of
  them has a name, a size or a colour.
\<close>

record DetailsState =
  ds_hasVariants :: bool
  ds_variants :: "Variant list"

definition ProductDetails_fetchProduct :: "nat \<Rightarrow> db \<Rightarrow> DetailsState" where
  "ProductDetails_fetchProduct productId d =
     (let variants =
            map (\<lambda>v. \<lparr>fv_id = Some (v_id v), fv_variant_name = v_variant_name v,
                       fv_size = v_size v, fv_color = v_color v, fv_price = v_price v,
                       fv_quantity = Some (v_quantity v),
                       fv_minimum_quantity = Some (v_minimum_quantity v),
                       fv_is_default = v_is_default v\<rparr>)
              (filter (\<lambda>v. v_product_id v = productId) (product_variants d))
      in \<lparr>ds_hasVariants =
             list_ex (\<lambda>v. truthy (fv_variant_name v) \<or> truthy (fv_size v) \<or> truthy (fv_color v))
               variants,
           ds_variants = variants\<rparr>)"

text \<open>
  \<open>removeVariant\<close>: the variant at \<open>index\<close> leaves the list of the page; nothing is
  sent to the database, here or when the page is saved.
\<close>

definition ProductDetails_removeVariant :: "nat \<Rightarrow> DetailsState \<Rightarrow> DetailsState" where
  "ProductDetails_removeVariant index s =
     (let newVariants =
            map snd (filter (\<lambda>(i, v). i \<noteq> index) (enumerate 0 (ds_variants s)))
      in \<lparr>ds_hasVariants = (if length newVariants = 0 then False else ds_hasVariants s),
           ds_variants = newVariants\<rparr>)"

text \<open>The radio button \<open>default_variant\<close> of the variant at \<open>index\<close>, while editing.\<close>

definition ProductDetails_defaultChange :: "nat \<Rightarrow> DetailsState \<Rightarrow> DetailsState" where
  "ProductDetails_defaultChange index s =
     s\<lparr>ds_variants :=
         map (\<lambda>(i, v). v\<lparr>fv_is_default := (i = index)\<rparr>) (enumerate 0 (ds_variants s))\<rparr>"

text \<open>\<open>handleSave\<close> on the state of the page.\<close>

definition ProductDetails_save :: "nat \<Rightarrow> product_data \<Rightarrow> DetailsState \<Rightarrow> db \<Rightarrow> outcome \<times> db" where
  "ProductDetails_save productId editedProduct s d =
     ProductDetails_handleSave productId editedProduct (ds_hasVariants s) (ds_variants s) d"

section \<open>Sample data\<close>

text \<open>
  A product form with no variants (the scenario of the specification: initial stock
  20, minimum stock 5), and the database after it is submitted to an empty one.
\<close>

definition shirt_form :: ProductFormData where
  "shirt_form = \<lparr>pf_name = ''Shirt'', pf_description = [], pf_sku = ''SH-1'',
     pf_price = Some 10, pf_category_id = None, pf_image_url = None, pf_initial_stock = 20,
     pf_minimum_stock = 5, pf_variants = []\<rparr>"

definition shirt_db :: db where
  "shirt_db =
     \<lparr>products =
        [\<lparr>pr_id = 0, pr_name = ''Shirt'', pr_description = Some [], pr_sku = ''SH-1'',
          pr_price = 10, pr_category_id = None, pr_image_url = None, pr_initial_stock = 20,
          pr_minimum_stock = 5\<rparr>],
      product_variants =
        [\<lparr>v_id = 1, v_product_id = 0, v_variant_name = None, v_size = None, v_color = None,
          v_price = None, v_quantity = 20, v_minimum_quantity = 5, v_is_default = True\<rparr>],
      orders = [], order_items = [], next_id = 2, write_requests = 2\<rparr>"

text \<open>
  The fields of that product as ProductDetails loads them into \<open>editedProduct\<close>, left
  unchanged by the operator.
\<close>

definition shirt_edit :: product_data where
  "shirt_edit = \<lparr>pd_name = ''Shirt'', pd_description = Some [], pd_sku = ''SH-1'',
     pd_price = Some 10, pd_category_id = None, pd_image_url = None,
     pd_initial_stock = Some 20, pd_minimum_stock = Some 5\<rparr>"

text \<open>The same database after three units of the shirt in size M, colour Red, were received.\<close>

definition stock_db :: db where
  "stock_db = shirt_db\<lparr>product_variants :=
      [\<lparr>v_id = 1, v_product_id = 0, v_variant_name = None, v_size = None, v_color = None,
        v_price = None, v_quantity = 20, v_minimum_quantity = 5, v_is_default = True\<rparr>,
       \<lparr>v_id = 2, v_product_id = 0, v_variant_name = None, v_size = Some ''M'',
        v_color = Some ''Red'', v_price = None, v_quantity = 3, v_minimum_quantity = 5,
        v_is_default = False\<rparr>],
      next_id := 3, write_requests := 3\<rparr>"

text \<open>
  A product with two named variants in stock: the first is free of charge and not the
  default, the second is flagged as the default.
\<close>

definition tee_db :: db where
  "tee_db = shirt_db\<lparr>product_variants :=
      [\<lparr>v_id = 1, v_product_id = 0, v_variant_name = Some ''Small'', v_size = Some ''S'',
        v_color = None, v_price = Some 0, v_quantity = 5, v_minimum_quantity = 5,
        v_is_default = False\<rparr>,
       \<lparr>v_id = 2, v_product_id = 0, v_variant_name = Some ''Large'', v_size = Some ''L'',
        v_color = None, v_price = Some 12, v_quantity = 5, v_minimum_quantity = 5,
        v_is_default = True\<rparr>],
      next_id := 3, write_requests := 3\<rparr>"

text \<open>The charges the order form starts with, and a delivery address.\<close>

definition initial_charges :: Charges where
  "initial_charges = \<lparr>ch_tax_rate = Some (1 / 10), ch_shipping_amount = 10,
                       ch_discount_amount = 0\<rparr>"

definition home_address :: DeliveryAddress where
  "home_address = \<lparr>da_address_line1 = ''1 Main Street'', da_address_line2 = [],
                    da_city = ''Springfield'', da_state = [], da_postal_code = ''12345'',
                    da_country = []\<rparr>"

text \<open>
  One line of the order form: the shirt is chosen, then the quantity field is set.
\<close>

definition shirt_line :: "int \<Rightarrow> OrderItem list" where
  "shirt_line q =
     OrderForm_handleQuantityChange 0 (Some q)
       (handleProductChange (fetchProducts shirt_db) 0 0 [blank_item])"

text \<open>
  The order of the specification's scenario: two shirts at 10 and one cap at 5, tax
  rate 0.10, shipping 10, no discount.
\<close>

definition shop_db :: db where
  "shop_db =
     \<lparr>products =
        [\<lparr>pr_id = 0, pr_name = ''Shirt'', pr_description = Some [], pr_sku = ''SH-1'',
          pr_price = 10, pr_category_id = None, pr_image_url = None, pr_initial_stock = 20,
          pr_minimum_stock = 5\<rparr>,
         \<lparr>pr_id = 2, pr_name = ''Cap'', pr_description = Some [], pr_sku = ''CA-1'',
          pr_price = 5, pr_category_id = None, pr_image_url = None, pr_initial_stock = 8,
          pr_minimum_stock = 5\<rparr>],
      product_variants =
        [\<lparr>v_id = 1, v_product_id = 0, v_variant_name = None, v_size = None, v_color = None,
          v_price = None, v_quantity = 20, v_minimum_quantity = 5, v_is_default = True\<rparr>,
         \<lparr>v_id = 3, v_product_id = 2, v_variant_name = None, v_size = None, v_color = None,
          v_price = None, v_quantity = 8, v_minimum_quantity = 5, v_is_default = True\<rparr>],
      orders = [], order_items = [], next_id = 4, write_requests = 4\<rparr>"

definition scenario_items :: "OrderItem list" where
  "scenario_items =
     handleProductChange (fetchProducts shop_db) 1 2
       (addItem
          (OrderForm_handleQuantityChange 0 (Some 2)
             (handleProductChange (fetchProducts shop_db) 0 0 [blank_item])))"

definition scenario_db :: db where
  "scenario_db =
     snd (OrderForm_handleSubmit (Some 9) scenario_items home_address initial_charges shop_db)"

text \<open>
  An edit of the product with the variants Small and Large: the operator removes Large,
  the default, from the page and picks Small, the variant left, as the default.
\<close>

definition tee_edit :: DetailsState where
  "tee_edit =
     ProductDetails_defaultChange 0
       (ProductDetails_removeVariant 1 (ProductDetails_fetchProduct 0 tee_db))"

section \<open>What a handler leaves in the database\<close>

text \<open>A handler that reports on a write passes on the database the write left.\<close>

lemma snd_report:
  "snd (case w of (Some e, d') \<Rightarrow> (a e, d') | (None, d') \<Rightarrow> (b, d')) = snd w"
  by (simp split: prod.splits option.splits)

lemma snd_report_sum:
  "snd (case w of (Inl e, d') \<Rightarrow> (a e, d') | (Inr r, d') \<Rightarrow> f r d') =
   (case fst w of Inl e \<Rightarrow> snd w | Inr r \<Rightarrow> snd (f r (snd w)))"
  by (simp split: prod.splits sum.splits)

section \<open>Properties of \<open>numberToWords\<close>\<close>

lemma numberToWords_zero: "numberToWords 0 = ''Zero''"
  by (simp add: numberToWords_def)

lemma numberToWords_hundred: "numberToWords 100 = ''One Hundred Only''"
  by code_simp

lemma numberToWords_1234: "numberToWords 1234 = ''One Thousand Two Hundred Thirty Four Only''"
  by code_simp

lemma numberToWords_millions:
  "numberToWords 999999999 =
     ''Nine Hundred Ninety Nine Million Nine Hundred Ninety Nine Thousand Nine Hundred Ninety Nine Only''"
  by code_simp

text \<open>From 1 upwards the fraction plays no part: only the floor is read.\<close>

lemma numberToWords_floor:
  assumes "1 \<le> num"
  shows "numberToWords num = numberToWords (of_int \<lfloor>num\<rfloor>)"
proof -
  have "1 \<le> \<lfloor>num\<rfloor>"
    using assms by simp
  then have "\<lfloor>num\<rfloor> \<noteq> 0"
    by linarith
  moreover have "num \<noteq> 0"
    using assms by auto
  ultimately show ?thesis
    by (simp add: numberToWords_def)
qed

text \<open>Strictly between 0 and 1 no word is produced.\<close>

lemma numberToWords_below_one:
  assumes "0 < num" and "num < 1"
  shows "numberToWords num = '' Only''"
proof -
  have "\<lfloor>num\<rfloor> = 0"
    using assms by (simp add: floor_eq_iff)
  moreover have "trim [] = []"
    by (simp add: trim_def)
  ultimately show ?thesis
    using assms by (simp add: numberToWords_def convertLessThanThousand_def)
qed

text \<open>
  Claim C8, at an amount below one. The claim has the integer part put into words and
  zero rendered as \<open>Zero\<close>; the integer part of one half is zero. The function tests
  \<open>num === 0\<close> before \<open>Math.floor\<close>, so the amount passes the test, its floor produces
  no word at all, and the result is the suffix alone with the space that precedes it.
\<close>

theorem numberToWords_half: "numberToWords (1 / 2) = '' Only''"
  by code_simp

section \<open>Properties of the manual override\<close>

text \<open>
  Claim C7. A quantity from 0 up to the largest signed 32-bit integer is written: one
  update is sent, every variant with the given identifier has exactly that quantity
  afterwards and no other row changes. A negative quantity, or one beyond the 32-bit
  range, is answered with an alert and the database is left as it was: no statement is
  sent, nothing is clamped.
\<close>

theorem manual_override:
  "(0 \<le> q \<and> q \<le> MAX_INTEGER \<longrightarrow>
      (\<exists>d'. Inventory_handleQuantityChange i q d = (Saved, d') \<and>
            write_requests d' = write_requests d + 1 \<and>
            product_variants d' =
              map (\<lambda>v. if v_id v = i then v\<lparr>v_quantity := q\<rparr> else v) (product_variants d)))
   \<and> (q < 0 \<or> MAX_INTEGER < q \<longrightarrow>
      (\<exists>msg. Inventory_handleQuantityChange i q d = (Alert msg, d)))"
  by (auto simp: Inventory_handleQuantityChange_def update_variant_quantity_def
      fits_integer_def MAX_INTEGER_def MIN_INTEGER_def sent_def)

text \<open>
  On the sample stock: 12 units are written to variant 2, and \<open>-1\<close> is refused.
\<close>

theorem manual_override_witness:
  "Inventory_handleQuantityChange 2 12 stock_db =
     (Saved, stock_db\<lparr>product_variants :=
        [\<lparr>v_id = 1, v_product_id = 0, v_variant_name = None, v_size = None, v_color = None,
          v_price = None, v_quantity = 20, v_minimum_quantity = 5, v_is_default = True\<rparr>,
         \<lparr>v_id = 2, v_product_id = 0, v_variant_name = None, v_size = Some ''M'',
          v_color = Some ''Red'', v_price = None, v_quantity = 12, v_minimum_quantity = 5,
          v_is_default = False\<rparr>], write_requests := 4\<rparr>)
   \<and> Inventory_handleQuantityChange 2 (- 1) stock_db =
     (Alert ''Quantity cannot be negative'', stock_db)"
proof -
  have a: "(0::int) \<le> 12 \<and> 12 \<le> MAX_INTEGER"
    by (simp add: MAX_INTEGER_def)
  have b: "(- 1 :: int) < 0 \<or> MAX_INTEGER < - 1"
    by simp
  obtain d' where d': "Inventory_handleQuantityChange 2 12 stock_db = (Saved, d')"
    using manual_override [of 12 2 stock_db] a by blast
  obtain msg where msg: "Inventory_handleQuantityChange 2 (- 1) stock_db = (Alert msg, stock_db)"
    using manual_override [of "- 1" 2 stock_db] b by blast
  have "Inventory_handleQuantityChange 2 12 stock_db =
     (Saved, stock_db\<lparr>product_variants :=
        [\<lparr>v_id = 1, v_product_id = 0, v_variant_name = None, v_size = None, v_color = None,
          v_price = None, v_quantity = 20, v_minimum_quantity = 5, v_is_default = True\<rparr>,
         \<lparr>v_id = 2, v_product_id = 0, v_variant_name = None, v_size = Some ''M'',
          v_color = Some ''Red'', v_price = None, v_quantity = 12, v_minimum_quantity = 5,
          v_is_default = False\<rparr>], write_requests := 4\<rparr>)"
    by code_simp
  moreover have "msg = ''Quantity cannot be negative''"
    using msg by (simp add: Inventory_handleQuantityChange_def MAX_INTEGER_def MIN_INTEGER_def)
  ultimately show ?thesis
    using d' msg by simp
qed

section \<open>Properties of the stock receipt\<close>

text \<open>An update of quantities keeps the rows of a key in place.\<close>

lemma matching_quantity_update:
  assumes "product_variants d' =
             map (\<lambda>v. if v_id v = i then v\<lparr>v_quantity := q\<rparr> else v) (product_variants d)"
  shows "matching_variants p sz col d' =
           map (\<lambda>v. if v_id v = i then v\<lparr>v_quantity := q\<rparr> else v) (matching_variants p sz col d)"
proof -
  have "filter P (map (\<lambda>v. if v_id v = i then v\<lparr>v_quantity := q\<rparr> else v) vs) =
        map (\<lambda>v. if v_id v = i then v\<lparr>v_quantity := q\<rparr> else v) (filter P vs)"
    if "\<And>v. P (v\<lparr>v_quantity := q\<rparr>) = P v" for P :: "variant \<Rightarrow> bool" and vs
    using that by (induction vs) auto
  then show ?thesis
    using assms by (simp add: matching_variants_def)
qed

text \<open>A receipt under a key that one variant holds adds to that variant.\<close>

lemma receive_existing:
  assumes "matching_variants p sz col d = [v]" and "fits_integer (v_quantity v + q)"
  shows "matching_variants p sz col (receive_stock p sz col q d) =
           [v\<lparr>v_quantity := v_quantity v + q\<rparr>]"
proof -
  let ?d' = "(sent d)\<lparr>product_variants :=
               map (\<lambda>w. if v_id w = v_id v then w\<lparr>v_quantity := v_quantity v + q\<rparr> else w)
                 (product_variants d)\<rparr>"
  have "receive_stock p sz col q d = ?d'"
    using assms
    by (simp add: receive_stock_def StockForm_handleSubmit_def single_def
        update_variant_quantity_def)
  moreover have "matching_variants p sz col ?d' =
      map (\<lambda>w. if v_id w = v_id v then w\<lparr>v_quantity := v_quantity v + q\<rparr> else w)
        (matching_variants p sz col d)"
    by (rule matching_quantity_update) (simp add: sent_def)
  ultimately show ?thesis
    using assms(1) by simp
qed

text \<open>A receipt under a key with a size and a colour that no variant holds creates its variant.\<close>

lemma receive_new:
  assumes "matching_variants p sz col d = []" and "sz \<noteq> []" and "col \<noteq> []"
    and "fits_integer q" and "p \<in> set (product_ids d)"
  shows "\<exists>v. matching_variants p sz col (receive_stock p sz col q d) = [v] \<and> v_quantity v = q"
proof -
  let ?row = "\<lparr>v_id = next_id d, v_product_id = p, v_variant_name = None, v_size = Some sz,
                v_color = Some col, v_price = None, v_quantity = q, v_minimum_quantity = 5,
                v_is_default = False\<rparr>"
  have five: "fits_integer 5"
    by (simp add: fits_integer_def MAX_INTEGER_def MIN_INTEGER_def)
  have "receive_stock p sz col q d =
          (sent d)\<lparr>product_variants := product_variants d @ [?row], next_id := next_id d + 1\<rparr>"
    using assms five
    by (simp add: receive_stock_def StockForm_handleSubmit_def single_def insert_variant_def
        build_variant_def or_null_def)
  then have "matching_variants p sz col (receive_stock p sz col q d) =
               matching_variants p sz col d @ [?row]"
    using assms(2,3) by (simp add: matching_variants_def sent_def eq_filter_def or_null_def)
  then show ?thesis
    using assms(1) by simp
qed

text \<open>
  The column sets a bound. \<open>quantity\<close> is a 32-bit \<open>integer\<close>: two receipts of
  1073741824 units under a new key leave 1073741824 units, since the second update is
  refused, while one receipt of their sum is refused as a whole and leaves no variant
  under the key.
\<close>

lemma receive_beyond_range:
  "key_quantity 0 ''M'' ''Red''
     (receive_stock 0 ''M'' ''Red'' 1073741824
        (receive_stock 0 ''M'' ''Red'' 1073741824 shirt_db)) = Some 1073741824
   \<and> key_quantity 0 ''M'' ''Red''
     (receive_stock 0 ''M'' ''Red'' (1073741824 + 1073741824) shirt_db) = None"
  by code_simp

text \<open>
  Where the receipts do add up. Take positive quantities \<open>q1\<close> and \<open>q2\<close> and a key
  of a product on file whose size and colour are both given, held by at most one
  variant, whose quantity is not negative, and let the quantity already there plus
  \<open>q1 + q2\<close> stay within the 32-bit range. Then receiving \<open>q1\<close> and then \<open>q2\<close> leaves
  the same quantity under the key as receiving \<open>q1 + q2\<close> at once, and that quantity is
  at least the larger of the two.
\<close>

lemma receive_given_key:
  assumes q: "0 < q1" "0 < q2"
    and key: "sz \<noteq> []" "col \<noteq> []"
    and prod: "p \<in> set (product_ids d)"
    and one: "length (matching_variants p sz col d) \<le> 1"
    and nonneg: "\<forall>v \<in> set (matching_variants p sz col d). 0 \<le> v_quantity v"
    and range: "(case key_quantity p sz col d of None \<Rightarrow> 0 | Some q \<Rightarrow> q) + q1 + q2
                  \<le> MAX_INTEGER"
  shows "key_quantity p sz col (receive_stock p sz col q2 (receive_stock p sz col q1 d)) =
           key_quantity p sz col (receive_stock p sz col (q1 + q2) d)
       \<and> (\<exists>q. key_quantity p sz col (receive_stock p sz col q2 (receive_stock p sz col q1 d))
                = Some q \<and> max q1 q2 \<le> q)"
proof (cases "matching_variants p sz col d")
  case Nil
  then have r: "q1 + q2 \<le> MAX_INTEGER"
    using range by (simp add: key_quantity_def single_def)
  have f: "fits_integer q1" "fits_integer (q1 + q2)"
    using q r by (simp_all add: fits_integer_def MIN_INTEGER_def)
  obtain v where v: "matching_variants p sz col (receive_stock p sz col q1 d) = [v]"
      "v_quantity v = q1"
    using receive_new [OF Nil key f(1) prod] by blast
  have two: "matching_variants p sz col (receive_stock p sz col q2 (receive_stock p sz col q1 d)) =
      [v\<lparr>v_quantity := q1 + q2\<rparr>]"
    using receive_existing [OF v(1), of q2] f(2) v(2) by simp
  obtain w where w: "matching_variants p sz col (receive_stock p sz col (q1 + q2) d) = [w]"
      "v_quantity w = q1 + q2"
    using receive_new [OF Nil key f(2) prod] by blast
  show ?thesis
    using two w q by (simp add: key_quantity_def single_def)
next
  case (Cons v rest)
  with one have m: "matching_variants p sz col d = [v]"
    by simp
  have v0: "0 \<le> v_quantity v"
    using nonneg m by simp
  have r: "v_quantity v + q1 + q2 \<le> MAX_INTEGER"
    using range m by (simp add: key_quantity_def single_def)
  have f: "fits_integer (v_quantity v + q1)" "fits_integer (v_quantity v + q1 + q2)"
     "fits_integer (v_quantity v + (q1 + q2))"
    using q r v0 by (simp_all add: fits_integer_def MIN_INTEGER_def)
  have one': "matching_variants p sz col (receive_stock p sz col q1 d) =
      [v\<lparr>v_quantity := v_quantity v + q1\<rparr>]"
    by (rule receive_existing [OF m f(1)])
  have two: "matching_variants p sz col (receive_stock p sz col q2 (receive_stock p sz col q1 d)) =
      [v\<lparr>v_quantity := v_quantity v + q1 + q2\<rparr>]"
    using receive_existing [OF one', of q2] f(2) by simp
  have once: "matching_variants p sz col (receive_stock p sz col (q1 + q2) d) =
      [v\<lparr>v_quantity := v_quantity v + (q1 + q2)\<rparr>]"
    by (rule receive_existing [OF m f(3)])
  show ?thesis
    using two once q v0 by (simp add: key_quantity_def single_def)
qed

text \<open>
  Claim C3, at a key with no size and no colour (the form marks both fields as
  optional). The claim has two receipts under one key leave the quantity that a single
  receipt of their sum leaves, and never less than the larger of the two. The handler
  looks for the variant of the key ("Check if variant exists") with
  \<open>.eq('size', null)\<close> and \<open>.eq('color', null)\<close>, a comparison that no row satisfies, so it
  never finds the variant whose size and colour are NULL and inserts a new one at each
  receipt. On the shirt, whose only variant has neither size nor colour and holds 20
  units, 5 and then 7 units leave three variants under that key, of 20, 5 and 7 units,
  and none of 12 or more; one receipt of 12 units leaves two, of 20 and 12. All three
  receipts are accepted.
\<close>

theorem receive_blank_key:
  "fst (StockForm_submit
          \<lparr>sf_product_id = Some 0, sf_size = [], sf_color = [], sf_quantity = 5\<rparr> shirt_db)
     = Navigate ''/inventory''
   \<and> fst (StockForm_submit
          \<lparr>sf_product_id = Some 0, sf_size = [], sf_color = [], sf_quantity = 7\<rparr>
          (receive_stock 0 [] [] 5 shirt_db))
     = Navigate ''/inventory''
   \<and> map (\<lambda>v. (v_product_id v, v_size v, v_color v, v_quantity v))
       (product_variants (receive_stock 0 [] [] 7 (receive_stock 0 [] [] 5 shirt_db)))
     = [(0, None, None, 20), (0, None, None, 5), (0, None, None, 7)]
   \<and> fst (StockForm_submit
          \<lparr>sf_product_id = Some 0, sf_size = [], sf_color = [], sf_quantity = 5 + 7\<rparr> shirt_db)
     = Navigate ''/inventory''
   \<and> map (\<lambda>v. (v_product_id v, v_size v, v_color v, v_quantity v))
       (product_variants (receive_stock 0 [] [] (5 + 7) shirt_db))
     = [(0, None, None, 20), (0, None, None, 12)]"
  by code_simp

text \<open>
  The form refuses a quantity below one through the field's \<open>min\<close> attribute: nothing
  is sent.
\<close>

lemma StockForm_submit_blocked:
  "sf_quantity formData < 1 \<Longrightarrow> StockForm_submit formData d = (Blocked, d)"
  by (simp add: StockForm_submit_def)

text \<open>
  Claim C6, at a quantity beyond the 32-bit range. The claim has the operator told of
  a validation error before any write is attempted. The form has no upper bound and
  the handler no check of its own: for 3000000000 units under a new key the insert is
  sent, the database refuses it, and the operator gets the general failure alert.
\<close>

theorem StockForm_out_of_range:
  "StockForm_submit
     \<lparr>sf_product_id = Some 0, sf_size = ''M'', sf_color = ''Red'', sf_quantity = 3000000000\<rparr>
     shirt_db =
   (Alert ''Failed to save stock. Please try again.'', shirt_db\<lparr>write_requests := 3\<rparr>)"
  by code_simp

section \<open>Properties of the default flag\<close>

text \<open>
  The stock form and the manual override leave the flags as they are: the variant that
  a receipt inserts is not flagged, and an update of a quantity touches no flag.
\<close>

lemma insert_unflagged_count:
  assumes "\<not> d_is_default x"
  shows "default_count p (product_variants (snd (insert_variant x d))) =
         default_count p (product_variants d)"
  using assms
  by (auto simp: insert_variant_def build_variant_def sent_def default_count_def
      split: sum.splits option.splits if_splits)

lemma quantity_count:
  "default_count p (map (\<lambda>v. if v_id v = i then v\<lparr>v_quantity := q\<rparr> else v) vs) =
   default_count p vs"
  by (induction vs) (auto simp: default_count_def)

lemma update_variant_quantity_count:
  "default_count p (product_variants (snd (update_variant_quantity i q d))) =
   default_count p (product_variants d)"
  by (simp add: update_variant_quantity_def sent_def quantity_count)

lemma StockForm_count:
  "default_count p (product_variants (snd (StockForm_submit formData d))) =
   default_count p (product_variants d)"
  by (simp add: StockForm_submit_def StockForm_handleSubmit_def snd_report
      insert_unflagged_count update_variant_quantity_count split: option.splits)

lemma Inventory_count:
  "default_count p (product_variants (snd (Inventory_handleQuantityChange i q d))) =
   default_count p (product_variants d)"
  by (simp add: Inventory_handleQuantityChange_def snd_report update_variant_quantity_count)

text \<open>
  The invariant in terms of the count, and its state before and after the save of the
  edit that drops the default variant from the page.
\<close>

lemma one_default_count:
  "one_default_per_product d \<longleftrightarrow> (\<forall>p. default_count p (product_variants d) \<le> 1)"
proof
  assume a: "one_default_per_product d"
  show "\<forall>p. default_count p (product_variants d) \<le> 1"
  proof
    fix p
    show "default_count p (product_variants d) \<le> 1"
    proof (cases "p \<in> set (map v_product_id (product_variants d))")
      case True
      then show ?thesis using a by (auto simp: one_default_per_product_def)
    next
      case False
      then have "filter (\<lambda>v. v_product_id v = p \<and> v_is_default v) (product_variants d) = []"
        by (auto simp: filter_empty_conv)
      then show ?thesis by (simp add: default_count_def)
    qed
  qed
next
  assume "\<forall>p. default_count p (product_variants d) \<le> 1"
  then show "one_default_per_product d"
    by (simp add: one_default_per_product_def)
qed

lemma invariant_lost_by_save:
  "one_default_per_product tee_db
   \<and> \<not> one_default_per_product (snd (ProductDetails_save 0 shirt_edit tee_edit tee_db))"
  by code_simp

section \<open>Properties of the product form\<close>

text \<open>
  Claim C4. A product is created without explicit variants when the flag \<open>hasVariants\<close>
  is off or the list of variants is empty. On a database in order, if its SKU is new,
  its price is a number and its stocks are non-negative 32-bit integers, the submit
  succeeds, the product is
  added, and exactly one variant is added: the variants of the new product are that one
  row, with \<open>quantity\<close> the initial stock, \<open>minimum_quantity\<close> the minimum stock,
  \<open>is_default\<close> true, and size, colour, name (and price) unset.
\<close>

theorem default_variant_created:
  assumes novar: "\<not> (hasVariants \<and> length (pf_variants formData) > 0)"
    and sku: "pf_sku formData \<notin> set (map pr_sku (products d))"
    and price: "pf_price formData = Some pr"
    and stock: "0 \<le> pf_initial_stock formData" "pf_initial_stock formData \<le> MAX_INTEGER"
    and minst: "0 \<le> pf_minimum_stock formData" "pf_minimum_stock formData \<le> MAX_INTEGER"
    and wf: "wf_db d"
  shows "\<exists>d'. ProductForm_handleSubmit None hasVariants formData d = (Navigate ''/products'', d')
      \<and> product_variants d' = product_variants d @
            [\<lparr>v_id = next_id d + 1, v_product_id = next_id d, v_variant_name = None,
              v_size = None, v_color = None, v_price = None,
              v_quantity = pf_initial_stock formData,
              v_minimum_quantity = pf_minimum_stock formData, v_is_default = True\<rparr>]
      \<and> filter (\<lambda>v. v_product_id v = next_id d) (product_variants d') =
            [\<lparr>v_id = next_id d + 1, v_product_id = next_id d, v_variant_name = None,
              v_size = None, v_color = None, v_price = None,
              v_quantity = pf_initial_stock formData,
              v_minimum_quantity = pf_minimum_stock formData, v_is_default = True\<rparr>]
      \<and> map pr_id (products d') = map pr_id (products d) @ [next_id d]"
proof -
  have f: "fits_integer (pf_initial_stock formData)" "fits_integer (pf_minimum_stock formData)"
    using stock minst by (simp_all add: fits_integer_def MIN_INTEGER_def)
  have nosku: "filter (\<lambda>p. pr_sku p = pf_sku formData) (products d) = []"
    using sku by (force simp: filter_empty_conv)
  have fresh: "filter (\<lambda>v. v_product_id v = next_id d) (product_variants d) = []"
    using wf by (fastforce simp: wf_db_def product_ids_def list_all_iff filter_empty_conv)
  show ?thesis
    using novar sku price stock minst f nosku fresh
    by (auto simp: ProductForm_handleSubmit_def ProductForm_checkSkuExists_def
        insert_product_def build_product_def insert_variant_def build_variant_def sent_def
        product_ids_def)
qed

text \<open>
  The shirt of the scenario, submitted to the empty database.
\<close>

theorem default_variant_created_witness:
  "ProductForm_handleSubmit None False shirt_form empty_db = (Navigate ''/products'', shirt_db)
   \<and> filter (\<lambda>v. v_product_id v = 0) (product_variants shirt_db) =
       [\<lparr>v_id = 1, v_product_id = 0, v_variant_name = None, v_size = None, v_color = None,
         v_price = None, v_quantity = 20, v_minimum_quantity = 5, v_is_default = True\<rparr>]"
proof -
  have h1: "\<not> (False \<and> length (pf_variants shirt_form) > 0)"
    by simp
  have h2: "pf_sku shirt_form \<notin> set (map pr_sku (products empty_db))"
    by (simp add: empty_db_def)
  have h3: "pf_price shirt_form = Some 10"
    by (simp add: shirt_form_def)
  have h4: "0 \<le> pf_initial_stock shirt_form" "pf_initial_stock shirt_form \<le> MAX_INTEGER"
    and h5: "0 \<le> pf_minimum_stock shirt_form" "pf_minimum_stock shirt_form \<le> MAX_INTEGER"
    by (simp_all add: shirt_form_def MAX_INTEGER_def)
  have h6: "wf_db empty_db"
    by (simp add: wf_db_def empty_db_def)
  obtain d' where d': "ProductForm_handleSubmit None False shirt_form empty_db =
        (Navigate ''/products'', d')"
      "filter (\<lambda>v. v_product_id v = next_id empty_db) (product_variants d') =
         [\<lparr>v_id = next_id empty_db + 1, v_product_id = next_id empty_db, v_variant_name = None,
           v_size = None, v_color = None, v_price = None,
           v_quantity = pf_initial_stock shirt_form,
           v_minimum_quantity = pf_minimum_stock shirt_form, v_is_default = True\<rparr>]"
    using default_variant_created [OF h1 h2 h3 h4 h5 h6] by blast
  have e: "ProductForm_handleSubmit None False shirt_form empty_db =
      (Navigate ''/products'', shirt_db)"
    by code_simp
  with d'(1) have "d' = shirt_db"
    by simp
  with d'(2) e show ?thesis
    by (simp add: empty_db_def shirt_form_def)
qed

text \<open>
  Claim C9, at an edit that drops the default variant from the page. The claim has at
  most one variant per product flagged \<open>is_default\<close> at any time, kept by every
  operation that creates or updates variants. The database has no constraint to that
  effect, and \<open>handleSave\<close> only asks that some variant of the page is flagged. The
  product has the variants Small and Large, Large being the default. The operator
  removes Large from the page, which deletes nothing from the database, picks Small as
  the default and saves: Small is updated to the default, Large keeps its flag, and the
  product has two default variants.
\<close>

theorem two_defaults_after_save:
  "default_count 0 (product_variants tee_db) = 1
   \<and> ds_hasVariants tee_edit = True
   \<and> map (\<lambda>v. (fv_id v, fv_variant_name v, fv_is_default v)) (ds_variants tee_edit)
     = [(Some 1, Some ''Small'', True)]
   \<and> fst (ProductDetails_save 0 shirt_edit tee_edit tee_db) = Saved
   \<and> map (\<lambda>v. (v_id v, v_product_id v, v_variant_name v, v_is_default v))
       (product_variants (snd (ProductDetails_save 0 shirt_edit tee_edit tee_db)))
     = [(1, 0, Some ''Small'', True), (2, 0, Some ''Large'', True)]
   \<and> default_count 0 (product_variants (snd (ProductDetails_save 0 shirt_edit tee_edit tee_db)))
     = 2"
  by code_simp

section \<open>Properties of the order form\<close>






text \<open>
  Claim C10. When a product is selected and the suggested variant's price is 0, the
  line's unit price is the product's base price. When a variant is chosen explicitly,
  the line's unit price is that variant's price as it is, 0 included.
\<close>

theorem line_price:
  "(find (\<lambda>p. p_id p = productId) productsState = Some product \<and> index < length items \<and>
    defaultVariant product = Some v \<and> pv_price v = Some 0
      \<longrightarrow> it_price (handleProductChange productsState index productId items ! index) =
            Some (p_price product))
   \<and> (index < length items \<and> it_product (items ! index) = Some product \<and>
      find (\<lambda>v. pv_id v = variantId) (p_variants product) = Some variant
      \<longrightarrow> it_price (handleVariantChange index variantId items ! index) = pv_price variant)"
  by (simp add: handleProductChange_def handleVariantChange_def js_or_def)

text \<open>
  The variant that costs nothing is suggested at the product's price of 10; chosen
  explicitly, it is entered at 0.
\<close>

theorem line_price_witness:
  "map it_price (handleProductChange (fetchProducts tee_db) 0 0 [blank_item]) = [Some 10]
   \<and> map it_price
       (handleVariantChange 0 1 (handleProductChange (fetchProducts tee_db) 0 0 [blank_item])) =
       [Some 0]"
proof -
  let ?small = "\<lparr>pv_id = 1, pv_variant_name = Some ''Small'', pv_size = Some ''S'',
                pv_color = None, pv_price = Some 0, pv_quantity = 5\<rparr>"
  let ?shirt = "\<lparr>p_id = 0, p_name = ''Shirt'', p_sku = ''SH-1'', p_price = 10,
            p_variants =
              [?small,
               \<lparr>pv_id = 2, pv_variant_name = Some ''Large'', pv_size = Some ''L'',
                pv_color = None, pv_price = Some 12, pv_quantity = 5\<rparr>]\<rparr>"
  let ?items = "handleProductChange (fetchProducts tee_db) 0 0 [blank_item]"
  have h1: "find (\<lambda>p. p_id p = 0) (fetchProducts tee_db) = Some ?shirt"
    by code_simp
  have h2: "0 < length [blank_item]"
    by simp
  have h3: "defaultVariant ?shirt = Some ?small"
    by code_simp
  have h4: "pv_price ?small = Some 0"
    by simp
  have a: "it_price (?items ! 0) = Some (p_price ?shirt)"
    using line_price [of 0 "fetchProducts tee_db" ?shirt 0 "[blank_item]" ?small]
      h1 h2 h3 h4 by blast
  have len: "length ?items = 1"
    by (simp add: handleProductChange_def split: option.splits)
  have h5: "it_product (?items ! 0) = Some ?shirt"
    using h1 by (simp add: handleProductChange_def)
  have h6: "find (\<lambda>v. pv_id v = 1) (p_variants ?shirt) = Some ?small"
    by simp
  have b: "it_price (handleVariantChange 0 1 ?items ! 0) = pv_price ?small"
    using line_price [of _ _ ?shirt 0 ?items _ 1 ?small] len h5 h6 by simp
  have len': "length (handleVariantChange 0 1 ?items) = 1"
    using len by (simp add: handleVariantChange_def Let_def split: option.splits)
  have "map it_price ?items = [Some 10]"
    using a len by (cases ?items) simp_all
  moreover have "map it_price (handleVariantChange 0 1 ?items) = [Some 0]"
    using b len' by (cases "handleVariantChange 0 1 ?items") simp_all
  ultimately show ?thesis
    by (rule conjI)
qed

section \<open>Properties of the stored order\<close>

text \<open>A successful insert adds one order, whose total is derived from its four amounts.\<close>

lemma insert_order_new:
  assumes "insert_order x d = (Inr i, d1)"
  shows "i = next_id d \<and> next_id d1 = next_id d + 1 \<and> order_items d1 = order_items d \<and>
         products d1 = products d \<and> product_variants d1 = product_variants d \<and>
         (\<exists>r. orders d1 = orders d @ [r] \<and> o_id r = i \<and>
              od_subtotal_amount x = Some (o_subtotal_amount r) \<and> total_derived r)"
  using assms
  by (auto simp: insert_order_def sent_def total_derived_def split: if_splits option.splits)

text \<open>
  Claim C2, at a quantity beyond the 32-bit range. The claim has the stored subtotal of
  every order equal to the sum of its items, and the invoice footer equal to the sum of
  the lines. The quantity field has a minimum and no maximum: with 3000000000 shirts at
  10 the order is inserted with subtotal 30000000000, the insert of its item is refused
  (\<open>order_items.quantity\<close> is an \<open>integer\<close>), the handler alerts, and the order stays
  on file with no item. Its invoice shows no line and a footer of 30000000000.
\<close>

theorem order_left_without_items:
  "fst (OrderForm_handleSubmit (Some 9) (shirt_line 3000000000) home_address initial_charges shirt_db)
     = Alert ''Failed to create order. Please try again.''
   \<and> map (\<lambda>r. (o_id r, o_subtotal_amount r, invoice_footer_total r))
       (orders (snd (OrderForm_handleSubmit (Some 9) (shirt_line 3000000000) home_address
                       initial_charges shirt_db)))
     = [(2, 30000000000, 30000000000)]
   \<and> order_lines (snd (OrderForm_handleSubmit (Some 9) (shirt_line 3000000000) home_address
                         initial_charges shirt_db)) 2 = []"
  by code_simp

section \<open>The total of an order is derived\<close>

lemma orders_derived_append:
  "orders_derived d \<Longrightarrow> orders d1 = orders d @ [r] \<Longrightarrow> total_derived r \<Longrightarrow> orders_derived d1"
  by (simp add: orders_derived_def)

lemma insert_order_derived:
  assumes "orders_derived d"
  shows "orders_derived (snd (insert_order x d))"
proof (cases "insert_order x d")
  case (Pair res d1)
  show ?thesis
  proof (cases res)
    case (Inl e)
    with Pair have "orders d1 = orders d"
      by (auto simp: insert_order_def sent_def split: if_splits option.splits)
    with assms Pair show ?thesis
      by (simp add: orders_derived_def)
  next
    case (Inr i)
    with Pair insert_order_new [of x d i d1] assms show ?thesis
      by (auto intro: orders_derived_append)
  qed
qed

lemma insert_order_items_orders: "orders (snd (insert_order_items xs d)) = orders d"
  by (simp add: insert_order_items_def sent_def split: sum.splits)

lemma update_order_status_derived:
  assumes "orders_derived d"
  shows "orders_derived (snd (update_order_status i s d))"
  using assms
  by (auto simp: update_order_status_def sent_def orders_derived_def list_all_iff total_derived_def)

lemma OrderForm_handleSubmit_derived:
  assumes "orders_derived d"
  shows "orders_derived (snd (OrderForm_handleSubmit c items addr ch d))"
proof -
  have a: "orders_derived (snd (insert_order_items xs (snd (insert_order x d))))" for xs x
    using insert_order_derived [OF assms, of x]
    by (simp add: orders_derived_def insert_order_items_orders)
  have b: "orders_derived (snd (insert_order x d))" for x
    by (rule insert_order_derived [OF assms])
  show ?thesis
    using assms a b
    by (simp add: OrderForm_handleSubmit_def Let_def snd_report snd_report_sum
        split: option.splits sum.splits)
qed

text \<open>
  The scenario of the specification: subtotal 25, tax 2.50, total 37.50, stored with the
  two lines; the total the form displays is the same.
\<close>

lemma scenario_order:
  "map (\<lambda>r. (o_subtotal_amount r, o_tax_amount r, o_shipping_amount r, o_discount_amount r,
             o_total_amount r)) (orders scenario_db) = [(25, 5 / 2, 10, 0, 75 / 2)]
   \<and> map (\<lambda>it. (oi_price it, oi_quantity it)) (order_lines scenario_db 4) = [(10, 2), (5, 1)]
   \<and> calculateTotal initial_charges scenario_items = Some (75 / 2)"
  by code_simp

text \<open>
  Claim C1. Every order on file has its four amounts non-negative and its total equal to
  subtotal + tax + shipping - discount, in exact arithmetic: this holds of the empty
  database and is kept by every write to \<open>orders\<close> (the insert, the status update, and
  the two handlers that send them). The total cannot be set: an insert that names
  \<open>total_amount\<close> is refused, whatever value it gives.
\<close>

theorem total_amount_derived:
  assumes "orders_derived d"
  shows "orders_derived empty_db
       \<and> orders_derived (snd (insert_order x d))
       \<and> (od_total_amount x \<noteq> None \<longrightarrow> insert_order x d = (Inl GeneratedAlways, sent d))
       \<and> orders_derived (snd (update_order_status i s d))
       \<and> orders_derived (snd (OrderForm_handleSubmit c items addr ch d))
       \<and> orders_derived (snd (Orders_handleStatusChange i s d))"
proof -
  have "orders_derived empty_db"
    by (simp add: orders_derived_def empty_db_def)
  moreover have "od_total_amount x \<noteq> None \<longrightarrow> insert_order x d = (Inl GeneratedAlways, sent d)"
    by (simp add: insert_order_def)
  moreover have "orders_derived (snd (Orders_handleStatusChange i s d))"
    using update_order_status_derived [OF assms, of i s]
    by (simp add: Orders_handleStatusChange_def snd_report)
  ultimately show ?thesis
    using insert_order_derived [OF assms] update_order_status_derived [OF assms]
      OrderForm_handleSubmit_derived [OF assms]
    by blast
qed

text \<open>
  The order of the scenario keeps its total of 37.50 through a status change, and an insert that
  names \<open>total_amount\<close> is refused.
\<close>

theorem total_amount_derived_witness:
  "orders_derived (snd (Orders_handleStatusChange 4 ''shipped'' scenario_db))
   \<and> map (\<lambda>r. (o_status r, o_total_amount r))
       (orders (snd (Orders_handleStatusChange 4 ''shipped'' scenario_db))) =
       [(''shipped'', 75 / 2)]
   \<and> insert_order
       \<lparr>od_customer_id = 9, od_status = ''pending'', od_subtotal_amount = Some 25,
        od_tax_amount = Some (5 / 2), od_shipping_amount = Some 10,
        od_discount_amount = Some 0, od_total_amount = Some 1,
        od_delivery_address_line1 = None, od_delivery_address_line2 = None,
        od_delivery_city = None, od_delivery_state = None, od_delivery_postal_code = None,
        od_delivery_country = None\<rparr> scenario_db = (Inl GeneratedAlways, sent scenario_db)"
proof -
  let ?x = "\<lparr>od_customer_id = 9, od_status = ''pending'', od_subtotal_amount = Some 25,
        od_tax_amount = Some (5 / 2), od_shipping_amount = Some 10,
        od_discount_amount = Some 0, od_total_amount = Some 1,
        od_delivery_address_line1 = None, od_delivery_address_line2 = None,
        od_delivery_city = None, od_delivery_state = None, od_delivery_postal_code = None,
        od_delivery_country = None\<rparr>"
  have "orders scenario_db \<noteq> [] \<and> orders_derived scenario_db"
    by code_simp
  then have h: "orders_derived scenario_db"
    by simp
  note t = total_amount_derived [OF h, of ?x 4 "''shipped''"]
  have a: "orders_derived (snd (Orders_handleStatusChange 4 ''shipped'' scenario_db))"
    using t by blast
  have b: "insert_order ?x scenario_db = (Inl GeneratedAlways, sent scenario_db)"
    using t by simp
  have c: "map (\<lambda>r. (o_status r, o_total_amount r))
       (orders (snd (Orders_handleStatusChange 4 ''shipped'' scenario_db))) =
       [(''shipped'', 75 / 2)]"
    by code_simp
  from a c b show ?thesis
    by blast
qed

end
